theory Spec2Isabelle
  imports Complex_Main
begin

section \<open>pdf2img.ts: the first page of a PDF as a PNG image\<close>

text \<open>
  The repository has one function, \<^verbatim>\<open>convertPdfToImage\<close> in
  \<^verbatim>\<open>src/app/lib/pdf2img.ts\<close>. It is glue between three collaborators that are not
  part of the repository: the pdf.js engine, the DOM canvas, and the browser's object-URL
  facility. The embedding below keeps the function's control flow line by line and takes
  what the collaborators answer during one call as a parameter (the record \<open>env\<close>).
  What the function does to the collaborators is logged as a list of operations, and the
  one piece of state that outlives a call, \<^verbatim>\<open>GlobalWorkerOptions.workerSrc\<close>, is
  passed in and returned.

  JavaScript strings are modelled as \<open>string\<close>; the only string operations of the source
  are concatenation and the removal of four ASCII characters at the end, which act on
  UTF-8 bytes as they do on UTF-16 code units. JavaScript numbers are modelled as \<open>rat\<close>:
  the source does no arithmetic, it only passes numbers on.
\<close>

subsection \<open>Data\<close>

type_synonym bytes = "nat list"

text \<open>
  A browser \<^verbatim>\<open>File\<close>: its name, its MIME type (the property \<^verbatim>\<open>type\<close>) and its
  contents.
\<close>

record File =
  name :: string
  mimeType :: string
  bits :: bytes

text \<open>The interface \<^verbatim>\<open>PdfConversionResult\<close> (lines 1-5); \<^verbatim>\<open>error?\<close> is optional.\<close>

record PdfConversionResult =
  imageUrl :: string
  "file" :: "File option"
  error :: "string option"

text \<open>
  A thrown value (\<^verbatim>\<open>err: any\<close> at line 75). The collaborators throw \<^verbatim>\<open>Error\<close>
  objects, which carry a name and a message; a thrown primitive string has no
  \<^verbatim>\<open>message\<close> property. The values \<^verbatim>\<open>null\<close> and \<^verbatim>\<open>undefined\<close>, on which a
  property access itself throws, are thrown by none of the collaborators and are left out.
\<close>

datatype js_thrown =
    ErrorObject string string
  | ThrownString string

text \<open>\<^verbatim>\<open>err.message\<close>: \<open>None\<close> is \<^verbatim>\<open>undefined\<close>.\<close>

fun message :: "js_thrown \<Rightarrow> string option" where
  "message (ErrorObject nm msg) = Some msg"
| "message (ThrownString s) = None"

text \<open>
  \<^verbatim>\<open>String(err)\<close>. For an \<^verbatim>\<open>Error\<close> object this is
  \<^verbatim>\<open>Error.prototype.toString\<close>: the name alone when the message is empty, the message
  alone when the name is empty, and \<^verbatim>\<open>name: message\<close> otherwise.
\<close>

fun toString :: "js_thrown \<Rightarrow> string" where
  "toString (ErrorObject nm msg) =
     (if nm = [] then msg else if msg = [] then nm else nm @ '': '' @ msg)"
| "toString (ThrownString s) = s"

text \<open>
  The template expression \<^verbatim>\<open>${err.message || err}\<close> of line 79: the message when it
  is truthy (present and not the empty string), else the string form of the value.
\<close>

definition messageOrSelf :: "js_thrown \<Rightarrow> string" where
  "messageOrSelf err =
     (case message err of
        Some m \<Rightarrow> if m \<noteq> [] then m else toString err
      | None \<Rightarrow> toString err)"

record viewport =
  width :: rat
  height :: rat

datatype canvas_context = Context2D

text \<open>
  \<^verbatim>\<open>canvas.toBlob(callback, type, quality)\<close> either throws while it is called (the
  HTML standard has it throw a \<^verbatim>\<open>SecurityError\<close>, and engines throw on surfaces they
  cannot read back), or returns and later calls the callback with a blob or with
  \<^verbatim>\<open>null\<close>.
\<close>

datatype toBlob_result =
    ToBlobThrows js_thrown
  | ToBlobCallback "bytes option"

text \<open>
  What the collaborators answer during one call. Every call that returns a promise may
  reject (\<open>Some e\<close> or \<open>Inl e\<close> is the rejection); the functions take the arguments
  the source passes, so that the model depends on them. The synchronous calls
  \<^verbatim>\<open>getViewport\<close>, \<^verbatim>\<open>createElement\<close>, the two assignments to the canvas,
  \<^verbatim>\<open>new File\<close> and \<^verbatim>\<open>URL.createObjectURL\<close> are taken not to throw, and
  \<^verbatim>\<open>toBlob\<close>, when it returns, is taken to call its callback.
\<close>

record env =
  hasWindow :: bool
  hasDocument :: bool
  importPdfjs :: "js_thrown option"
  importWorker :: "js_thrown + string"
  arrayBuffer :: "File \<Rightarrow> js_thrown + bytes"
  getDocument :: "bytes \<Rightarrow> js_thrown option"
  getPage :: "nat \<Rightarrow> js_thrown option"
  getViewport :: "rat \<Rightarrow> viewport"
  getContext :: "string \<Rightarrow> canvas_context option"
  render :: "canvas_context \<Rightarrow> viewport \<Rightarrow> js_thrown option"
  toBlob :: "string \<Rightarrow> rat \<Rightarrow> toBlob_result"
  objectUrlId :: "bytes \<Rightarrow> string"

text \<open>
  \<^verbatim>\<open>URL.createObjectURL(blob)\<close>. The File API serialises a blob URL as the scheme
  \<^verbatim>\<open>blob:\<close> followed by the origin and a fresh identifier; the environment supplies
  what follows the scheme.
\<close>

definition createObjectURL :: "env \<Rightarrow> bytes \<Rightarrow> string" where
  "createObjectURL e blob = ''blob:'' @ objectUrlId e blob"

text \<open>The operations the function performs on its collaborators, in the order of the source.\<close>

datatype operation =
    ImportPdfjs
  | ImportWorker
  | SetWorkerSrc string
  | ArrayBuffer
  | GetDocument bytes
  | GetPage nat
  | GetViewport rat
  | CreateElement string
  | GetContext string
  | SetCanvasWidth rat
  | SetCanvasHeight rat
  | Render viewport
  | ToBlob string rat
  | NewFile string string
  | CreateObjectURL

text \<open>How a promise ends.\<close>

datatype 'a promise =
    Resolved 'a
  | Rejected js_thrown

text \<open>How the \<^verbatim>\<open>try\<close> block ends: it returns a value, or an exception leaves it.\<close>

datatype 'a completion =
    Return 'a
  | Throw js_thrown

text \<open>
  One call: how the returned promise ends, the value of
  \<^verbatim>\<open>GlobalWorkerOptions.workerSrc\<close> after the call, and the operations performed.
\<close>

record call =
  settled :: "PdfConversionResult promise"
  workerSrc :: "string option"
  operations :: "operation list"

subsection \<open>The file name\<close>

text \<open>
  The regular expression \<^verbatim>\<open>/\.pdf$/i\<close> of line 54 at one position of the subject: a
  dot, then p, d, f in either case, then the end of the input. Without the \<^verbatim>\<open>u\<close> flag
  the only characters that match a letter of the pattern are its two ASCII cases.
\<close>

fun matchesPdfAtEnd :: "string \<Rightarrow> bool" where
  "matchesPdfAtEnd [c0, c1, c2, c3] =
     (c0 = CHR ''.'' \<and> (c1 = CHR ''p'' \<or> c1 = CHR ''P'') \<and>
      (c2 = CHR ''d'' \<or> c2 = CHR ''D'') \<and> (c3 = CHR ''f'' \<or> c3 = CHR ''F''))"
| "matchesPdfAtEnd _ = False"

text \<open>
  \<^verbatim>\<open>name.replace(/\.pdf$/i, "")\<close>: the search tries the positions from left to right
  and replaces the first match by the empty string; a match reaches the end of the input,
  so nothing follows it.
\<close>

fun replacePdfSuffix :: "string \<Rightarrow> string" where
  "replacePdfSuffix [] = []"
| "replacePdfSuffix (c # cs) =
     (if matchesPdfAtEnd (c # cs) then [] else c # replacePdfSuffix cs)"

text \<open>Lines 54-55: the name of the image file.\<close>

definition imageFileName :: "string \<Rightarrow> string" where
  "imageFileName n = replacePdfSuffix n @ ''.png''"

text \<open>
  The derivation in the words of the specification: when the name ends in \<^verbatim>\<open>.pdf\<close>,
  in any mix of cases, the extension is removed, and otherwise the name is kept.
\<close>

definition pdfExtensions :: "string list" where
  "pdfExtensions =
     [''.pdf'', ''.pdF'', ''.pDf'', ''.pDF'', ''.Pdf'', ''.PdF'', ''.PDf'', ''.PDF'']"

definition stripTrailingPdf :: "string \<Rightarrow> string" where
  "stripTrailingPdf n =
     (if 4 \<le> length n \<and> drop (length n - 4) n \<in> set pdfExtensions
      then take (length n - 4) n else n)"

subsection \<open>The conversion\<close>

text \<open>
  Lines 50-74: the promise built around \<^verbatim>\<open>canvas.toBlob\<close>. An exception thrown while
  the executor runs rejects the promise; otherwise the callback resolves it.
\<close>

definition encodePromise :: "env \<Rightarrow> File \<Rightarrow> PdfConversionResult promise \<times> operation list" where
  "encodePromise e f =
     (case toBlob e ''image/png'' 1 of
        ToBlobThrows err \<Rightarrow> (Rejected err, [ToBlob ''image/png'' 1])
      | ToBlobCallback None \<Rightarrow>
          (Resolved \<lparr>imageUrl = [], file = None, error = Some ''Failed to create image blob''\<rparr>,
           [ToBlob ''image/png'' 1])
      | ToBlobCallback (Some blob) \<Rightarrow>
          (let baseName = replacePdfSuffix (name f);
               imageFile = \<lparr>name = baseName @ ''.png'', mimeType = ''image/png'', bits = blob\<rparr>
           in (Resolved \<lparr>imageUrl = createObjectURL e blob, file = Some imageFile, error = None\<rparr>,
               [ToBlob ''image/png'' 1, NewFile (baseName @ ''.png'') ''image/png'',
                CreateObjectURL])))"

text \<open>
  Lines 22-74: the \<^verbatim>\<open>try\<close> block. The promise of line 50 is returned without being
  awaited, so the block ends by returning it, however the promise itself ends.
\<close>

definition tryBlock ::
  "env \<Rightarrow> File \<Rightarrow> string option \<Rightarrow>
     PdfConversionResult promise completion \<times> string option \<times> operation list" where
  "tryBlock e f g =
     (case importPdfjs e of
        Some err \<Rightarrow> (Throw err, g, [ImportPdfjs])
      | None \<Rightarrow>
     (case importWorker e of
        Inl err \<Rightarrow> (Throw err, g, [ImportPdfjs, ImportWorker])
      | Inr workerUrl \<Rightarrow>
     (let ops1 = [ImportPdfjs, ImportWorker, SetWorkerSrc workerUrl];
          g' = Some workerUrl
      in
     (case arrayBuffer e f of
        Inl err \<Rightarrow> (Throw err, g', ops1 @ [ArrayBuffer])
      | Inr buf \<Rightarrow>
     (case getDocument e buf of
        Some err \<Rightarrow> (Throw err, g', ops1 @ [ArrayBuffer, GetDocument buf])
      | None \<Rightarrow>
     (case getPage e 1 of
        Some err \<Rightarrow> (Throw err, g', ops1 @ [ArrayBuffer, GetDocument buf, GetPage 1])
      | None \<Rightarrow>
     (let scale = 3;
          vp = getViewport e scale;
          ops2 = ops1 @ [ArrayBuffer, GetDocument buf, GetPage 1, GetViewport scale,
                         CreateElement ''canvas'', GetContext ''2d'']
      in
     (case getContext e ''2d'' of
        None \<Rightarrow> (Throw (ErrorObject ''Error'' ''Failed to get 2D canvas context''), g', ops2)
      | Some ctx \<Rightarrow>
     (let ops3 = ops2 @ [SetCanvasWidth (width vp), SetCanvasHeight (height vp), Render vp]
      in
     (case render e ctx vp of
        Some err \<Rightarrow> (Throw err, g', ops3)
      | None \<Rightarrow>
     (case encodePromise e f of
        (p, ops4) \<Rightarrow> (Return p, g', ops3 @ ops4))))))))))))"

text \<open>
  Lines 11-82. The guard of line 13 returns before anything else is done; the handler of
  line 75 turns an exception that leaves the \<^verbatim>\<open>try\<close> block into a result; a promise
  returned by the block becomes the promise of the function.
\<close>

definition convertPdfToImage :: "env \<Rightarrow> File \<Rightarrow> string option \<Rightarrow> call" where
  "convertPdfToImage e f g =
     (if \<not> hasWindow e \<or> \<not> hasDocument e then
        \<lparr>settled = Resolved
           \<lparr>imageUrl = [], file = None,
            error = Some ''PDF conversion must run in the browser (DOM APIs not available).''\<rparr>,
         workerSrc = g, operations = []\<rparr>
      else
        (case tryBlock e f g of
           (Throw err, g', ops) \<Rightarrow>
             \<lparr>settled = Resolved
                \<lparr>imageUrl = [], file = None,
                 error = Some (''Failed to convert PDF: '' @ messageOrSelf err)\<rparr>,
              workerSrc = g', operations = ops\<rparr>
         | (Return p, g', ops) \<Rightarrow> \<lparr>settled = p, workerSrc = g', operations = ops\<rparr>))"

subsection \<open>The two shapes of a result\<close>

text \<open>
  The success triple and the failure pair of the specification's data model, as predicates
  on a result.
\<close>

definition successShape :: "PdfConversionResult \<Rightarrow> bool" where
  "successShape r = (imageUrl r \<noteq> [] \<and> file r \<noteq> None \<and> error r = None)"

definition failureShape :: "PdfConversionResult \<Rightarrow> bool" where
  "failureShape r =
     (imageUrl r = [] \<and> file r = None \<and>
      (case error r of None \<Rightarrow> False | Some m \<Rightarrow> m \<noteq> []))"

subsection \<open>Sample inputs\<close>

text \<open>A browser in which every step succeeds, and a two-byte stand-in for a PDF.\<close>

definition invoice :: File where
  "invoice = \<lparr>name = ''invoice.PDF'', mimeType = ''application/pdf'', bits = [37, 80]\<rparr>"

definition browser :: env where
  "browser =
     \<lparr>hasWindow = True, hasDocument = True,
      importPdfjs = None,
      importWorker = Inr ''/assets/pdf.worker.min.mjs'',
      arrayBuffer = (\<lambda>f. Inr (bits f)),
      getDocument = (\<lambda>b. None),
      getPage = (\<lambda>n. if n = 1 then None else Some (ErrorObject ''Error'' ''Invalid page request.'')),
      getViewport = (\<lambda>s. \<lparr>width = 612 * s, height = 792 * s\<rparr>),
      getContext = (\<lambda>k. if k = ''2d'' then Some Context2D else None),
      render = (\<lambda>c v. None),
      toBlob = (\<lambda>t q. ToBlobCallback (Some [137, 80, 78, 71])),
      objectUrlId = (\<lambda>b. ''http://localhost/0f1e'')\<rparr>"

text \<open>A server-side renderer: neither \<^verbatim>\<open>window\<close> nor \<^verbatim>\<open>document\<close> exists.\<close>

definition server :: env where
  "server = browser\<lparr>hasWindow := False, hasDocument := False\<rparr>"

text \<open>A browser whose canvas refuses to be read back: \<^verbatim>\<open>toBlob\<close> throws.\<close>

definition taintedCanvas :: env where
  "taintedCanvas =
     browser\<lparr>toBlob := (\<lambda>t q. ToBlobThrows (ErrorObject ''SecurityError'' ''The operation is insecure.''))\<rparr>"

text \<open>A browser whose canvas exports nothing: the callback receives \<^verbatim>\<open>null\<close>.\<close>

definition emptyCanvas :: env where
  "emptyCanvas = browser\<lparr>toBlob := (\<lambda>t q. ToBlobCallback None)\<rparr>"

text \<open>A browser that hands out no drawing context.\<close>

definition noContext :: env where
  "noContext = browser\<lparr>getContext := (\<lambda>k. None)\<rparr>"

section \<open>Auxiliary facts\<close>

subsection \<open>The regular expression\<close>

lemma matchesPdfAtEnd_length: "matchesPdfAtEnd s \<Longrightarrow> length s = 4"
  by (induction s rule: matchesPdfAtEnd.induct) auto

lemma matchesPdfAtEnd_hd: "matchesPdfAtEnd (c # cs) \<Longrightarrow> c = CHR ''.''"
  by (induction "c # cs" rule: matchesPdfAtEnd.induct) auto

lemma matchesPdfAtEnd_iff: "matchesPdfAtEnd s \<longleftrightarrow> s \<in> set pdfExtensions"
  by (induction s rule: matchesPdfAtEnd.induct) (auto simp: pdfExtensions_def)

text \<open>A name that ends in the extension loses it, and only it.\<close>

lemma replacePdfSuffix_strip:
  assumes "matchesPdfAtEnd ext"
  shows "replacePdfSuffix (b @ ext) = b"
proof (induction b)
  case Nil
  from assms show ?case by (cases ext) auto
next
  case (Cons x b)
  have "length (x # b @ ext) \<noteq> 4"
    using matchesPdfAtEnd_length [OF assms] by simp
  then have "\<not> matchesPdfAtEnd (x # b @ ext)"
    using matchesPdfAtEnd_length by blast
  with Cons show ?case by simp
qed

text \<open>A name whose last four characters are not the extension is returned as it is.\<close>

lemma replacePdfSuffix_keep:
  "\<not> matchesPdfAtEnd (drop (length s - 4) s) \<Longrightarrow> replacePdfSuffix s = s"
proof (induction s)
  case Nil
  then show ?case by simp
next
  case (Cons c cs)
  show ?case
  proof (cases "matchesPdfAtEnd (c # cs)")
    case True
    then have "length (c # cs) = 4" by (rule matchesPdfAtEnd_length)
    with True Cons.prems show ?thesis by simp
  next
    case False
    have "\<not> matchesPdfAtEnd (drop (length cs - 4) cs)"
    proof (cases "4 \<le> length cs")
      case True
      then have "length (c # cs) - 4 = Suc (length cs - 4)" by simp
      then have "drop (length (c # cs) - 4) (c # cs) = drop (length cs - 4) cs"
        by (simp only: drop_Suc_Cons)
      with Cons.prems show ?thesis by simp
    next
      case False
      then have "length (drop (length cs - 4) cs) \<noteq> 4" by simp
      then show ?thesis using matchesPdfAtEnd_length by blast
    qed
    with Cons.IH False show ?thesis by simp
  qed
qed

text \<open>The search of the source computes what the specification describes.\<close>

lemma replacePdfSuffix_eq_strip: "replacePdfSuffix n = stripTrailingPdf n"
proof (cases "matchesPdfAtEnd (drop (length n - 4) n)")
  case True
  then have len: "length (drop (length n - 4) n) = 4" by (rule matchesPdfAtEnd_length)
  then have "4 \<le> length n" by simp
  moreover have "n = take (length n - 4) n @ drop (length n - 4) n" by simp
  then have "replacePdfSuffix n = take (length n - 4) n"
    using replacePdfSuffix_strip [OF True, of "take (length n - 4) n"] by simp
  ultimately show ?thesis
    using True by (simp add: stripTrailingPdf_def matchesPdfAtEnd_iff)
next
  case False
  then show ?thesis
    by (simp add: replacePdfSuffix_keep stripTrailingPdf_def matchesPdfAtEnd_iff)
qed

text \<open>An extension that is followed by more text is passed over by the search.\<close>

lemma replacePdfSuffix_inner:
  assumes "matchesPdfAtEnd ext" and "v \<noteq> []"
  shows "replacePdfSuffix (u @ ext @ v) = u @ ext @ replacePdfSuffix v"
proof (induction u)
  case Nil
  from assms(1) obtain c1 c2 c3 where ext: "ext = [CHR ''.'', c1, c2, c3]"
    and c1: "c1 = CHR ''p'' \<or> c1 = CHR ''P''"
    and c2: "c2 = CHR ''d'' \<or> c2 = CHR ''D''"
    and c3: "c3 = CHR ''f'' \<or> c3 = CHR ''F''"
    by (induction ext rule: matchesPdfAtEnd.induct) auto
  have n0: "\<not> matchesPdfAtEnd (CHR ''.'' # c1 # c2 # c3 # v)"
    using assms(2) matchesPdfAtEnd_length by fastforce
  have n1: "\<not> matchesPdfAtEnd (c1 # c2 # c3 # v)"
    using c1 matchesPdfAtEnd_hd by fastforce
  have n2: "\<not> matchesPdfAtEnd (c2 # c3 # v)"
    using c2 matchesPdfAtEnd_hd by fastforce
  have n3: "\<not> matchesPdfAtEnd (c3 # v)"
    using c3 matchesPdfAtEnd_hd by fastforce
  show ?case
    by (simp add: ext n0 n1 n2 n3)
next
  case (Cons x u)
  have "length (x # u @ ext @ v) \<noteq> 4"
    using matchesPdfAtEnd_length [OF assms(1)] by simp
  then have "\<not> matchesPdfAtEnd (x # u @ ext @ v)"
    using matchesPdfAtEnd_length by blast
  with Cons show ?case by simp
qed

subsection \<open>The handler of line 75\<close>

lemmas conv_defs = convertPdfToImage_def tryBlock_def encodePromise_def Let_def

lemmas conv_splits = option.splits sum.splits toBlob_result.splits prod.splits

lemma messageOrSelf_message:
  "message err = Some m \<Longrightarrow> m \<noteq> [] \<Longrightarrow> messageOrSelf err = m"
  by (simp add: messageOrSelf_def)

lemma messageOrSelf_empty_message:
  "message err = Some [] \<Longrightarrow> messageOrSelf err = toString err"
  by (simp add: messageOrSelf_def)

lemma messageOrSelf_no_message:
  "message err = None \<Longrightarrow> messageOrSelf err = toString err"
  by (simp add: messageOrSelf_def)

text \<open>
  An exception that leaves the \<^verbatim>\<open>try\<close> block is reported in the result, behind the
  fixed prefix.
\<close>

lemma thrown_is_wrapped:
  assumes "hasWindow e" and "hasDocument e" and "fst (tryBlock e f g) = Throw err"
  shows "settled (convertPdfToImage e f g) =
           Resolved \<lparr>imageUrl = [], file = None,
                     error = Some (''Failed to convert PDF: '' @ messageOrSelf err)\<rparr>"
  using assms by (auto simp: convertPdfToImage_def split: prod.splits completion.splits)

text \<open>
  The promise of the function rejects in one case only: the call reached
  \<^verbatim>\<open>canvas.toBlob\<close> and \<^verbatim>\<open>toBlob\<close> threw.
\<close>

lemma rejected_iff:
  "settled (convertPdfToImage e f g) = Rejected err \<longleftrightarrow>
   ToBlob ''image/png'' 1 \<in> set (operations (convertPdfToImage e f g)) \<and>
   toBlob e ''image/png'' 1 = ToBlobThrows err"
  by (auto simp: conv_defs split: conv_splits if_splits)

text \<open>So the call resolves whenever \<^verbatim>\<open>toBlob\<close> does not throw.\<close>

lemma resolves_unless_toBlob_throws:
  assumes "\<And>err. toBlob e ''image/png'' 1 \<noteq> ToBlobThrows err"
  shows "\<exists>r. settled (convertPdfToImage e f g) = Resolved r"
proof (cases "settled (convertPdfToImage e f g)")
  case (Resolved r)
  then show ?thesis by blast
next
  case (Rejected err)
  then have "toBlob e ''image/png'' 1 = ToBlobThrows err"
    by (simp add: rejected_iff)
  with assms show ?thesis by blast
qed

subsection \<open>The sample runs\<close>

lemma env_facts:
  "hasWindow browser" "hasDocument browser" "importPdfjs browser = None"
  "importWorker browser = Inr ''/assets/pdf.worker.min.mjs''"
  "getViewport browser 3 = \<lparr>width = 1836, height = 2376\<rparr>"
  "toBlob taintedCanvas ''image/png'' 1 =
     ToBlobThrows (ErrorObject ''SecurityError'' ''The operation is insecure.'')"
  "toBlob emptyCanvas ''image/png'' 1 = ToBlobCallback None"
  "getContext noContext ''2d'' = None"
  "\<not> hasWindow server" "\<not> hasDocument server"
  by (simp_all add: browser_def taintedCanvas_def emptyCanvas_def noContext_def server_def)

lemma run_browser:
  "convertPdfToImage browser invoice None =
     \<lparr>settled = Resolved \<lparr>imageUrl = ''blob:http://localhost/0f1e'',
               file = Some \<lparr>name = ''invoice.png'', mimeType = ''image/png'',
                            bits = [137, 80, 78, 71]\<rparr>,
               error = None\<rparr>,
      workerSrc = Some ''/assets/pdf.worker.min.mjs'',
      operations =
        [ImportPdfjs, ImportWorker, SetWorkerSrc ''/assets/pdf.worker.min.mjs'', ArrayBuffer,
         GetDocument [37, 80], GetPage 1, GetViewport 3, CreateElement ''canvas'',
         GetContext ''2d'', SetCanvasWidth 1836, SetCanvasHeight 2376,
         Render \<lparr>width = 1836, height = 2376\<rparr>,
         ToBlob ''image/png'' 1, NewFile ''invoice.png'' ''image/png'', CreateObjectURL]\<rparr>"
  by code_simp

lemma run_browser_again:
  "convertPdfToImage browser invoice (Some ''/assets/pdf.worker.min.mjs'') =
     \<lparr>settled = Resolved \<lparr>imageUrl = ''blob:http://localhost/0f1e'',
               file = Some \<lparr>name = ''invoice.png'', mimeType = ''image/png'',
                            bits = [137, 80, 78, 71]\<rparr>,
               error = None\<rparr>,
      workerSrc = Some ''/assets/pdf.worker.min.mjs'',
      operations =
        [ImportPdfjs, ImportWorker, SetWorkerSrc ''/assets/pdf.worker.min.mjs'', ArrayBuffer,
         GetDocument [37, 80], GetPage 1, GetViewport 3, CreateElement ''canvas'',
         GetContext ''2d'', SetCanvasWidth 1836, SetCanvasHeight 2376,
         Render \<lparr>width = 1836, height = 2376\<rparr>,
         ToBlob ''image/png'' 1, NewFile ''invoice.png'' ''image/png'', CreateObjectURL]\<rparr>"
  by code_simp

lemma run_taintedCanvas:
  "convertPdfToImage taintedCanvas invoice None =
     \<lparr>settled = Rejected (ErrorObject ''SecurityError'' ''The operation is insecure.''),
      workerSrc = Some ''/assets/pdf.worker.min.mjs'',
      operations =
        [ImportPdfjs, ImportWorker, SetWorkerSrc ''/assets/pdf.worker.min.mjs'', ArrayBuffer,
         GetDocument [37, 80], GetPage 1, GetViewport 3, CreateElement ''canvas'',
         GetContext ''2d'', SetCanvasWidth 1836, SetCanvasHeight 2376,
         Render \<lparr>width = 1836, height = 2376\<rparr>, ToBlob ''image/png'' 1]\<rparr>"
  by code_simp

lemma run_emptyCanvas:
  "convertPdfToImage emptyCanvas invoice None =
     \<lparr>settled = Resolved \<lparr>imageUrl = [], file = None,
                          error = Some ''Failed to create image blob''\<rparr>,
      workerSrc = Some ''/assets/pdf.worker.min.mjs'',
      operations =
        [ImportPdfjs, ImportWorker, SetWorkerSrc ''/assets/pdf.worker.min.mjs'', ArrayBuffer,
         GetDocument [37, 80], GetPage 1, GetViewport 3, CreateElement ''canvas'',
         GetContext ''2d'', SetCanvasWidth 1836, SetCanvasHeight 2376,
         Render \<lparr>width = 1836, height = 2376\<rparr>, ToBlob ''image/png'' 1]\<rparr>"
  by code_simp

lemma run_noContext:
  "convertPdfToImage noContext invoice None =
     \<lparr>settled = Resolved \<lparr>imageUrl = [], file = None,
                 error = Some ''Failed to convert PDF: Failed to get 2D canvas context''\<rparr>,
      workerSrc = Some ''/assets/pdf.worker.min.mjs'',
      operations =
        [ImportPdfjs, ImportWorker, SetWorkerSrc ''/assets/pdf.worker.min.mjs'', ArrayBuffer,
         GetDocument [37, 80], GetPage 1, GetViewport 3, CreateElement ''canvas'',
         GetContext ''2d'']\<rparr>"
  by code_simp

lemma run_server:
  "convertPdfToImage server invoice None =
     \<lparr>settled = Resolved
        \<lparr>imageUrl = [], file = None,
         error = Some ''PDF conversion must run in the browser (DOM APIs not available).''\<rparr>,
      workerSrc = None, operations = []\<rparr>"
  by code_simp

section \<open>Properties\<close>

subsection \<open>The shape of a result\<close>

text \<open>
  C1. Every result that \<^verbatim>\<open>convertPdfToImage\<close> returns has exactly one of two shapes:
  the success triple (\<^verbatim>\<open>imageUrl\<close> not empty, \<^verbatim>\<open>file\<close> not null, \<^verbatim>\<open>error\<close>
  absent) or the failure pair (\<^verbatim>\<open>imageUrl\<close> empty, \<^verbatim>\<open>file\<close> null, \<^verbatim>\<open>error\<close>
  present and not empty). No returned result mixes the two.
\<close>

theorem result_shape:
  assumes "settled (convertPdfToImage e f g) = Resolved r"
  shows "(successShape r \<and> \<not> failureShape r) \<or> (failureShape r \<and> \<not> successShape r)"
  using assms
  by (auto simp: conv_defs successShape_def failureShape_def createObjectURL_def
      split: conv_splits if_splits)

text \<open>The run in the sample browser returns a result of the first shape.\<close>

theorem result_shape_witness:
  "settled (convertPdfToImage browser invoice None) =
     Resolved \<lparr>imageUrl = ''blob:http://localhost/0f1e'',
               file = Some \<lparr>name = ''invoice.png'', mimeType = ''image/png'',
                            bits = [137, 80, 78, 71]\<rparr>,
               error = None\<rparr> \<and>
   successShape \<lparr>imageUrl = ''blob:http://localhost/0f1e'',
               file = Some \<lparr>name = ''invoice.png'', mimeType = ''image/png'',
                            bits = [137, 80, 78, 71]\<rparr>,
               error = None\<rparr> \<and>
   \<not> failureShape \<lparr>imageUrl = ''blob:http://localhost/0f1e'',
               file = Some \<lparr>name = ''invoice.png'', mimeType = ''image/png'',
                            bits = [137, 80, 78, 71]\<rparr>,
               error = None\<rparr>"
proof -
  have h: "settled (convertPdfToImage browser invoice None) =
     Resolved \<lparr>imageUrl = ''blob:http://localhost/0f1e'',
               file = Some \<lparr>name = ''invoice.png'', mimeType = ''image/png'',
                            bits = [137, 80, 78, 71]\<rparr>,
               error = None\<rparr>"
    by (simp only: run_browser call.simps)
  have "\<not> failureShape \<lparr>imageUrl = ''blob:http://localhost/0f1e'',
               file = Some \<lparr>name = ''invoice.png'', mimeType = ''image/png'',
                            bits = [137, 80, 78, 71]\<rparr>,
               error = None\<rparr>"
    by (simp add: failureShape_def)
  with result_shape [OF h] h show ?thesis by blast
qed

subsection \<open>What reaches the caller\<close>

text \<open>
  C2. The claim is that the call always resolves and never rejects, also when the
  canvas-to-PNG step raises an exception. The promise of line 50 is returned without
  \<^verbatim>\<open>await\<close>, so the handler of line 75 does not see what happens inside it: in a
  browser where every step up to the rendering succeeds and \<^verbatim>\<open>canvas.toBlob\<close>
  throws, the promise of the function is rejected with the thrown value.
\<close>

theorem toBlob_throw_rejects:
  "settled (convertPdfToImage taintedCanvas invoice None) =
     Rejected (ErrorObject ''SecurityError'' ''The operation is insecure.'')"
  by (simp only: run_taintedCanvas call.simps)

text \<open>In that run no result is returned at all.\<close>

theorem toBlob_throw_rejects_witness:
  "\<forall>r. settled (convertPdfToImage taintedCanvas invoice None) \<noteq> Resolved r"
  using toBlob_throw_rejects by simp

subsection \<open>The guard of line 13\<close>

text \<open>
  C3. In a non-browser context (\<^verbatim>\<open>window\<close> or \<^verbatim>\<open>document\<close> unavailable) the call
  resolves to the failure result whose error is exactly
  "PDF conversion must run in the browser (DOM APIs not available).", with an empty
  \<^verbatim>\<open>imageUrl\<close> and a null \<^verbatim>\<open>file\<close>; it performs no operation on the PDF engine or
  the canvas (the list of operations is empty) and leaves the worker source as it was.
\<close>

theorem non_browser_fails_untouched:
  assumes "\<not> hasWindow e \<or> \<not> hasDocument e"
  shows "convertPdfToImage e f g =
           \<lparr>settled = Resolved
              \<lparr>imageUrl = [], file = None,
               error = Some ''PDF conversion must run in the browser (DOM APIs not available).''\<rparr>,
            workerSrc = g, operations = []\<rparr>"
  using assms by (simp add: convertPdfToImage_def)

text \<open>The server-side renderer of the samples is such a context.\<close>

theorem non_browser_fails_untouched_witness:
  "\<not> hasWindow server \<and> \<not> hasDocument server \<and>
   convertPdfToImage server invoice None =
     \<lparr>settled = Resolved
        \<lparr>imageUrl = [], file = None,
         error = Some ''PDF conversion must run in the browser (DOM APIs not available).''\<rparr>,
      workerSrc = None, operations = []\<rparr>"
proof -
  have nw: "\<not> hasWindow server" and nd: "\<not> hasDocument server"
    by (rule env_facts)+
  from nw have h: "\<not> hasWindow server \<or> \<not> hasDocument server"
    by (rule disjI1)
  from nw nd non_browser_fails_untouched [OF h, of invoice None] show ?thesis
    by blast
qed

subsection \<open>The image file\<close>

text \<open>
  C4. On every successful conversion the name of the returned file is the input name with
  a trailing \<^verbatim>\<open>.pdf\<close> removed, whatever its case, and \<^verbatim>\<open>.png\<close> appended: the name
  \<^verbatim>\<open>invoice.PDF\<close> gives \<^verbatim>\<open>invoice.png\<close> and the name \<^verbatim>\<open>report\<close> gives
  \<^verbatim>\<open>report.png\<close>. The MIME type of the returned file is exactly \<^verbatim>\<open>image/png\<close>,
  whatever the input name.
\<close>

theorem image_file_name_and_type:
  assumes "settled (convertPdfToImage e f g) = Resolved r" and "file r = Some img"
  shows "name img = imageFileName (name f) \<and>
         imageFileName (name f) = stripTrailingPdf (name f) @ ''.png'' \<and>
         mimeType img = ''image/png'' \<and>
         imageFileName ''invoice.PDF'' = ''invoice.png'' \<and>
         imageFileName ''report'' = ''report.png''"
proof -
  have "name img = imageFileName (name f) \<and> mimeType img = ''image/png''"
    using assms
    by (auto simp: conv_defs imageFileName_def split: conv_splits if_splits)
  moreover have "imageFileName (name f) = stripTrailingPdf (name f) @ ''.png''"
    by (simp add: imageFileName_def replacePdfSuffix_eq_strip)
  moreover have "imageFileName ''invoice.PDF'' = ''invoice.png''"
    by code_simp
  moreover have "imageFileName ''report'' = ''report.png''"
    by code_simp
  ultimately show ?thesis by blast
qed

text \<open>The sample run: \<^verbatim>\<open>invoice.PDF\<close> comes back as the PNG file \<^verbatim>\<open>invoice.png\<close>.\<close>

theorem image_file_name_and_type_witness:
  "settled (convertPdfToImage browser invoice None) =
     Resolved \<lparr>imageUrl = ''blob:http://localhost/0f1e'',
               file = Some \<lparr>name = ''invoice.png'', mimeType = ''image/png'',
                            bits = [137, 80, 78, 71]\<rparr>,
               error = None\<rparr> \<and>
   name \<lparr>name = ''invoice.png'', mimeType = ''image/png'', bits = [137, 80, 78, 71]\<rparr> =
     stripTrailingPdf (name invoice) @ ''.png'' \<and>
   mimeType \<lparr>name = ''invoice.png'', mimeType = ''image/png'', bits = [137, 80, 78, 71]\<rparr> =
     ''image/png''"
proof -
  have h1: "settled (convertPdfToImage browser invoice None) =
     Resolved \<lparr>imageUrl = ''blob:http://localhost/0f1e'',
               file = Some \<lparr>name = ''invoice.png'', mimeType = ''image/png'',
                            bits = [137, 80, 78, 71]\<rparr>,
               error = None\<rparr>"
    by (simp only: run_browser call.simps)
  have h2: "file \<lparr>imageUrl = ''blob:http://localhost/0f1e'',
               file = Some \<lparr>name = ''invoice.png'', mimeType = ''image/png'',
                            bits = [137, 80, 78, 71]\<rparr>,
               error = None\<rparr> =
            Some \<lparr>name = ''invoice.png'', mimeType = ''image/png'', bits = [137, 80, 78, 71]\<rparr>"
    by simp
  from h1 image_file_name_and_type [OF h1 h2] show ?thesis by simp
qed

subsection \<open>Exceptions\<close>

text \<open>
  C5. The claim is that every exception raised after the environment check ends in a
  failure result whose error is "Failed to convert PDF: " followed by the message of the
  exception. That holds for the exceptions that leave the \<^verbatim>\<open>try\<close> block (lemma
  \<open>thrown_is_wrapped\<close>), and fails for an exception of \<^verbatim>\<open>canvas.toBlob\<close>: the call
  reaches the export, the export throws, and the outcome is not the failure result that
  wraps the message of the exception.
\<close>

theorem toBlob_throw_not_wrapped:
  "ToBlob ''image/png'' 1 \<in> set (operations (convertPdfToImage taintedCanvas invoice None)) \<and>
   toBlob taintedCanvas ''image/png'' 1 =
     ToBlobThrows (ErrorObject ''SecurityError'' ''The operation is insecure.'') \<and>
   settled (convertPdfToImage taintedCanvas invoice None) \<noteq>
     Resolved \<lparr>imageUrl = [], file = None,
               error = Some ''Failed to convert PDF: The operation is insecure.''\<rparr>"
proof -
  have "ToBlob ''image/png'' 1 \<in> set (operations (convertPdfToImage taintedCanvas invoice None))"
    by (simp add: run_taintedCanvas)
  moreover have "settled (convertPdfToImage taintedCanvas invoice None) \<noteq>
     Resolved \<lparr>imageUrl = [], file = None,
               error = Some ''Failed to convert PDF: The operation is insecure.''\<rparr>"
    by (simp add: run_taintedCanvas)
  ultimately show ?thesis using env_facts(6) by blast
qed

text \<open>The last part on its own: the wrapped failure result is not what the caller gets.\<close>

theorem toBlob_throw_not_wrapped_witness:
  "settled (convertPdfToImage taintedCanvas invoice None) \<noteq>
     Resolved \<lparr>imageUrl = [], file = None,
               error = Some ''Failed to convert PDF: The operation is insecure.''\<rparr>"
  using toBlob_throw_not_wrapped by blast

subsection \<open>An export without data\<close>

text \<open>
  C6. Whenever the call reaches the export of the canvas and the export produces no
  binary data (the callback receives a null blob), the call resolves to the failure result
  whose error is exactly "Failed to create image blob", with an empty \<^verbatim>\<open>imageUrl\<close> and
  a null \<^verbatim>\<open>file\<close>.
\<close>

theorem null_blob_fails:
  assumes "ToBlob ''image/png'' 1 \<in> set (operations (convertPdfToImage e f g))"
    and "toBlob e ''image/png'' 1 = ToBlobCallback None"
  shows "settled (convertPdfToImage e f g) =
           Resolved \<lparr>imageUrl = [], file = None, error = Some ''Failed to create image blob''\<rparr>"
  using assms by (auto simp: conv_defs split: conv_splits if_splits)

text \<open>The browser with the empty canvas is such a run.\<close>

theorem null_blob_fails_witness:
  "ToBlob ''image/png'' 1 \<in> set (operations (convertPdfToImage emptyCanvas invoice None)) \<and>
   toBlob emptyCanvas ''image/png'' 1 = ToBlobCallback None \<and>
   settled (convertPdfToImage emptyCanvas invoice None) =
     Resolved \<lparr>imageUrl = [], file = None, error = Some ''Failed to create image blob''\<rparr>"
proof -
  have h1: "ToBlob ''image/png'' 1 \<in> set (operations (convertPdfToImage emptyCanvas invoice None))"
    by (simp add: run_emptyCanvas)
  have h2: "toBlob emptyCanvas ''image/png'' 1 = ToBlobCallback None"
    by (rule env_facts)
  from h1 h2 null_blob_fails [OF h1 h2] show ?thesis by blast
qed

subsection \<open>No drawing context\<close>

text \<open>
  C7, as stated: when the 2D context is unavailable the call fails with the error
  "Failed to get 2D canvas context". In the browser without a context the error of the
  result is a different string: the handler of line 75 has put its prefix in front.
\<close>

theorem no_context_not_bare_message:
  "getContext noContext ''2d'' = None \<and>
   settled (convertPdfToImage noContext invoice None) =
     Resolved \<lparr>imageUrl = [], file = None,
               error = Some ''Failed to convert PDF: Failed to get 2D canvas context''\<rparr> \<and>
   settled (convertPdfToImage noContext invoice None) \<noteq>
     Resolved \<lparr>imageUrl = [], file = None,
               error = Some ''Failed to get 2D canvas context''\<rparr>"
proof -
  have "settled (convertPdfToImage noContext invoice None) =
     Resolved \<lparr>imageUrl = [], file = None,
               error = Some ''Failed to convert PDF: Failed to get 2D canvas context''\<rparr>"
    by (simp only: run_noContext call.simps)
  moreover have "settled (convertPdfToImage noContext invoice None) \<noteq>
     Resolved \<lparr>imageUrl = [], file = None,
               error = Some ''Failed to get 2D canvas context''\<rparr>"
    by (simp add: run_noContext)
  ultimately show ?thesis using env_facts(8) by blast
qed

text \<open>
  C7, amended. Whenever the call asks for the 2D context and none is available, the
  \<^verbatim>\<open>try\<close> block throws an \<^verbatim>\<open>Error\<close> whose message is "Failed to get 2D canvas
  context", and the call resolves to the failure result whose error is exactly
  "Failed to convert PDF: Failed to get 2D canvas context", with an empty \<^verbatim>\<open>imageUrl\<close>
  and a null \<^verbatim>\<open>file\<close>.
\<close>

theorem no_context_fails_prefixed:
  assumes "GetContext ''2d'' \<in> set (operations (convertPdfToImage e f g))"
    and "getContext e ''2d'' = None"
  shows "fst (tryBlock e f g) = Throw (ErrorObject ''Error'' ''Failed to get 2D canvas context'') \<and>
         settled (convertPdfToImage e f g) =
           Resolved \<lparr>imageUrl = [], file = None,
                     error = Some ''Failed to convert PDF: Failed to get 2D canvas context''\<rparr>"
  using assms by (auto simp: conv_defs messageOrSelf_def split: conv_splits if_splits)

text \<open>The browser without a context is such a run.\<close>

theorem no_context_fails_prefixed_witness:
  "GetContext ''2d'' \<in> set (operations (convertPdfToImage noContext invoice None)) \<and>
   getContext noContext ''2d'' = None \<and>
   fst (tryBlock noContext invoice None) =
     Throw (ErrorObject ''Error'' ''Failed to get 2D canvas context'') \<and>
   settled (convertPdfToImage noContext invoice None) =
     Resolved \<lparr>imageUrl = [], file = None,
               error = Some ''Failed to convert PDF: Failed to get 2D canvas context''\<rparr>"
proof -
  have h1: "GetContext ''2d'' \<in> set (operations (convertPdfToImage noContext invoice None))"
    by (simp add: run_noContext)
  have h2: "getContext noContext ''2d'' = None"
    by (rule env_facts)
  from h1 h2 no_context_fails_prefixed [OF h1 h2] show ?thesis by blast
qed

subsection \<open>What is asked of the engine and the canvas\<close>

text \<open>
  C8. On every call that reaches the rendering, the engine was asked for page 1 and for
  the viewport at scale 3, and the width and the height of the canvas were set to the width
  and the height of that viewport before the page was rendered: the operations up to the
  rendering are exactly the listed ones, in this order, and nothing after them asks for a
  page, a viewport or a size again.
\<close>

theorem rendering_request:
  assumes "Render vp \<in> set (operations (convertPdfToImage e f g))"
  shows "vp = getViewport e 3 \<and>
         (\<exists>url buf rest.
            arrayBuffer e f = Inr buf \<and>
            operations (convertPdfToImage e f g) =
              [ImportPdfjs, ImportWorker, SetWorkerSrc url, ArrayBuffer, GetDocument buf,
               GetPage 1, GetViewport 3, CreateElement ''canvas'', GetContext ''2d'',
               SetCanvasWidth (width vp), SetCanvasHeight (height vp), Render vp] @ rest \<and>
            set rest \<subseteq> {ToBlob ''image/png'' 1,
                         NewFile (imageFileName (name f)) ''image/png'', CreateObjectURL})"
  using assms by (auto simp: conv_defs imageFileName_def split: conv_splits if_splits)

text \<open>
  The sample run renders a viewport of 1836 by 2376 pixels, three times the page of 612 by
  792 points.
\<close>

theorem rendering_request_witness:
  "Render \<lparr>width = 1836, height = 2376\<rparr>
     \<in> set (operations (convertPdfToImage browser invoice None)) \<and>
   \<lparr>width = 1836, height = 2376\<rparr> = getViewport browser 3 \<and>
   take 12 (operations (convertPdfToImage browser invoice None)) =
     [ImportPdfjs, ImportWorker, SetWorkerSrc ''/assets/pdf.worker.min.mjs'', ArrayBuffer,
      GetDocument [37, 80], GetPage 1, GetViewport 3, CreateElement ''canvas'',
      GetContext ''2d'', SetCanvasWidth 1836, SetCanvasHeight 2376,
      Render \<lparr>width = 1836, height = 2376\<rparr>]"
proof -
  have h: "Render \<lparr>width = 1836, height = 2376\<rparr>
     \<in> set (operations (convertPdfToImage browser invoice None))"
    by (simp add: run_browser)
  have "\<lparr>width = 1836, height = 2376\<rparr> = getViewport browser 3"
    using rendering_request [OF h] by (rule conjunct1)
  moreover have "take 12 (operations (convertPdfToImage browser invoice None)) =
     [ImportPdfjs, ImportWorker, SetWorkerSrc ''/assets/pdf.worker.min.mjs'', ArrayBuffer,
      GetDocument [37, 80], GetPage 1, GetViewport 3, CreateElement ''canvas'',
      GetContext ''2d'', SetCanvasWidth 1836, SetCanvasHeight 2376,
      Render \<lparr>width = 1836, height = 2376\<rparr>]"
    by (simp add: run_browser)
  ultimately show ?thesis using h by blast
qed

subsection \<open>The worker source\<close>

text \<open>
  C9, as stated: the registration of the worker source is guarded, so that a repeated call
  does not register again once the value is set. A second call in the sample browser,
  started with the value the first call left, imports the worker module and assigns the
  worker source again.
\<close>

theorem registration_repeated:
  "workerSrc (convertPdfToImage browser invoice None) = Some ''/assets/pdf.worker.min.mjs'' \<and>
   take 3 (operations (convertPdfToImage browser invoice
                         (workerSrc (convertPdfToImage browser invoice None)))) =
     [ImportPdfjs, ImportWorker, SetWorkerSrc ''/assets/pdf.worker.min.mjs'']"
proof -
  have w: "workerSrc (convertPdfToImage browser invoice None) = Some ''/assets/pdf.worker.min.mjs''"
    by (simp only: run_browser call.simps)
  have "take 3 (operations (convertPdfToImage browser invoice (Some ''/assets/pdf.worker.min.mjs''))) =
     [ImportPdfjs, ImportWorker, SetWorkerSrc ''/assets/pdf.worker.min.mjs'']"
    by (simp add: run_browser_again)
  with w show ?thesis by (simp only: simp_thms)
qed

text \<open>
  C9, amended. The registration is not guarded. Every call in a browser whose two imports
  succeed assigns the imported worker URL to the worker source exactly once, whatever the
  value was before; the assignment is idempotent in its effect only: afterwards the worker
  source is that URL, and a repeated call leaves it so.
\<close>

theorem registration_unguarded:
  assumes "hasWindow e" and "hasDocument e"
    and "importPdfjs e = None" and "importWorker e = Inr url"
  shows "workerSrc (convertPdfToImage e f g) = Some url \<and>
         count_list (operations (convertPdfToImage e f g)) (SetWorkerSrc url) = 1 \<and>
         workerSrc (convertPdfToImage e f (workerSrc (convertPdfToImage e f g))) =
           workerSrc (convertPdfToImage e f g)"
  using assms by (auto simp: conv_defs split: conv_splits if_splits)

text \<open>The sample browser, started with the worker source already set.\<close>

theorem registration_unguarded_witness:
  "hasWindow browser \<and> hasDocument browser \<and> importPdfjs browser = None \<and>
   importWorker browser = Inr ''/assets/pdf.worker.min.mjs'' \<and>
   workerSrc (convertPdfToImage browser invoice (Some ''/assets/pdf.worker.min.mjs'')) =
     Some ''/assets/pdf.worker.min.mjs'' \<and>
   count_list (operations (convertPdfToImage browser invoice (Some ''/assets/pdf.worker.min.mjs'')))
     (SetWorkerSrc ''/assets/pdf.worker.min.mjs'') = 1"
proof -
  note h = env_facts(1-4)
  from h registration_unguarded [OF h, of invoice "Some ''/assets/pdf.worker.min.mjs''"]
  show ?thesis by blast
qed

subsection \<open>At most one extension is removed\<close>

text \<open>
  C10. The derivation of the file name removes at most one trailing \<^verbatim>\<open>.pdf\<close> and
  changes nothing else: \<^verbatim>\<open>report.pdf.pdf\<close> gives \<^verbatim>\<open>report.pdf.png\<close>,
  \<^verbatim>\<open>photo.png\<close> gives \<^verbatim>\<open>photo.png.png\<close>, what is removed from a name is nothing
  or one extension at its end, and a \<^verbatim>\<open>.pdf\<close> (in any case) that is followed by more
  text stays where it is.
\<close>

theorem strips_at_most_one_trailing_pdf:
  "imageFileName ''report.pdf.pdf'' = ''report.pdf.png'' \<and>
   imageFileName ''photo.png'' = ''photo.png.png'' \<and>
   (\<exists>ext. n = replacePdfSuffix n @ ext \<and> (ext = [] \<or> ext \<in> set pdfExtensions)) \<and>
   (x \<in> set pdfExtensions \<and> v \<noteq> [] \<longrightarrow>
      imageFileName (u @ x @ v) = u @ x @ imageFileName v)"
proof -
  have "imageFileName ''report.pdf.pdf'' = ''report.pdf.png''"
    by code_simp
  moreover have "imageFileName ''photo.png'' = ''photo.png.png''"
    by code_simp
  moreover have "\<exists>ext. n = replacePdfSuffix n @ ext \<and> (ext = [] \<or> ext \<in> set pdfExtensions)"
  proof (cases "4 \<le> length n \<and> drop (length n - 4) n \<in> set pdfExtensions")
    case True
    then have "stripTrailingPdf n = take (length n - 4) n"
      by (simp only: stripTrailingPdf_def if_True simp_thms)
    then have "n = replacePdfSuffix n @ drop (length n - 4) n"
      by (simp add: replacePdfSuffix_eq_strip)
    with True show ?thesis by blast
  next
    case False
    then have "stripTrailingPdf n = n"
      by (simp only: stripTrailingPdf_def if_False simp_thms)
    then have "n = replacePdfSuffix n @ []"
      by (simp add: replacePdfSuffix_eq_strip)
    then show ?thesis by blast
  qed
  moreover have "x \<in> set pdfExtensions \<and> v \<noteq> [] \<longrightarrow>
      imageFileName (u @ x @ v) = u @ x @ imageFileName v"
    by (simp add: imageFileName_def replacePdfSuffix_inner matchesPdfAtEnd_iff)
  ultimately show ?thesis by blast
qed

text \<open>The name \<^verbatim>\<open>a.pdf.txt\<close> keeps its inner \<^verbatim>\<open>.pdf\<close>.\<close>

theorem strips_at_most_one_trailing_pdf_witness:
  "''.pdf'' \<in> set pdfExtensions \<and> ''.txt'' \<noteq> [] \<and>
   imageFileName (''a'' @ ''.pdf'' @ ''.txt'') = ''a'' @ ''.pdf'' @ imageFileName ''.txt'' \<and>
   imageFileName ''a.pdf.txt'' = ''a.pdf.txt.png''"
proof -
  have h: "''.pdf'' \<in> set pdfExtensions \<and> ''.txt'' \<noteq> []"
    by (simp add: pdfExtensions_def)
  have "imageFileName ''a.pdf.txt'' = ''a.pdf.txt.png''"
    by code_simp
  with h strips_at_most_one_trailing_pdf
         [where n = "''report.pdf.pdf''" and x = "''.pdf''" and v = "''.txt''" and u = "''a''"]
  show ?thesis by blast
qed

end
